theory Spec2Isabelle
  imports Main
begin

section \<open>Python values, exceptions and generators\<close>

text \<open>
  The validator base class of \<^verbatim>\<open>xmlschema/validator.py\<close> handles arbitrary Python
  objects: tokens, the value assigned to an attribute, the chunks a generator yields.
  \<open>PyObj\<close> is an object with the default, identity based equality; the number is its
  identity. \<open>PyValidationError\<close> is an instance of \<^verbatim>\<open>XMLSchemaValidationError\<close>, again
  named by its identity. Floating point numbers are left out.
\<close>

datatype pyval =
    PyNone
  | PyBool bool
  | PyInt int
  | PyStr string
  | PyObj nat
  | PyValidationError nat

text \<open>Python's \<^verbatim>\<open>==\<close> on these values: \<^verbatim>\<open>bool\<close> is a subclass of \<^verbatim>\<open>int\<close>, so
  \<^verbatim>\<open>True == 1\<close> and \<^verbatim>\<open>False == 0\<close>.\<close>

fun py_eq :: "pyval \<Rightarrow> pyval \<Rightarrow> bool" where
  "py_eq (PyBool b) (PyInt i) = ((if b then 1 else 0) = i)"
| "py_eq (PyInt i) (PyBool b) = (i = (if b then 1 else 0))"
| "py_eq x y = (x = y)"

text \<open>\<^verbatim>\<open>isinstance(chunk, XMLSchemaValidationError)\<close>\<close>

fun isinstance_validation_error :: "pyval \<Rightarrow> bool" where
  "isinstance_validation_error (PyValidationError i) = True"
| "isinstance_validation_error v = False"

text \<open>
  The exceptions that leave the methods of the class. \<open>ValueRejected\<close> is what
  \<^verbatim>\<open>check_value\<close> raises; \<open>TypeError\<close> is Python's answer to \<^verbatim>\<open>raise x\<close> for an
  \<open>x\<close> that is no exception.
\<close>

datatype exn =
    NotImplementedError
  | XMLSchemaValidationError nat
  | ValueRejected
  | AttributeError
  | TypeError

text \<open>\<^verbatim>\<open>raise chunk\<close>\<close>

fun raise_py :: "pyval \<Rightarrow> exn" where
  "raise_py (PyValidationError i) = XMLSchemaValidationError i"
| "raise_py v = TypeError"

text \<open>
  A generator is the sequence of what its successive \<^verbatim>\<open>next\<close> calls do: yield a value,
  stop, or raise. Only the part of it that a driver pulls is looked at, so an exception
  behind the items a driver has pulled is never met. The sequences are finite.
\<close>

datatype gen =
    Stop
  | Throw exn
  | Yield pyval gen

text \<open>\<^verbatim>\<open>next(g, default)\<close>\<close>

fun py_next :: "gen \<Rightarrow> pyval \<Rightarrow> exn + pyval" where
  "py_next Stop dflt = Inr dflt"
| "py_next (Throw e) dflt = Inl e"
| "py_next (Yield x g) dflt = Inr x"

text \<open>The items a generator yields when it is drained, and how it ends.\<close>

fun gen_items :: "gen \<Rightarrow> pyval list" where
  "gen_items Stop = []"
| "gen_items (Throw e) = []"
| "gen_items (Yield x g) = x # gen_items g"




section \<open>The validity tracker\<close>

text \<open>
  A node is its instance dictionary. A method that assigns returns the exception it
  raised, if any, with the dictionary as it is then.
\<close>

type_synonym node = "string \<rightharpoonup> pyval"

definition getattr :: "node \<Rightarrow> string \<Rightarrow> exn + pyval" where
  "getattr n name = (case n name of None \<Rightarrow> Inl AttributeError | Some v \<Rightarrow> Inr v)"

text \<open>
  Modelled from the spec: \<^verbatim>\<open>check_value\<close> of \<^verbatim>\<open>xmlschema/utils.py\<close>, which is not among
  the sources. Section 4.1 says of the call \<^verbatim>\<open>check_value(value, None, True, False)\<close>
  that the stored validity "may only take values {True, False, None}; assigning any
  other value is rejected".
\<close>

definition check_value :: "pyval \<Rightarrow> pyval list \<Rightarrow> exn option" where
  "check_value v vs = (if v \<in> set vs then None else Some ValueRejected)"

text \<open>
  \<^verbatim>\<open>object.__setattr__\<close>: the properties of the class have no setter, any other name is
  stored in the instance dictionary. An entry that hides a method of the class is stored
  like any other and not followed further.
\<close>

definition properties :: "string list" where
  "properties = [''check_token'', ''checked'', ''valid'', ''validity'', ''validation_attempted'']"

definition object_setattr :: "node \<Rightarrow> string \<Rightarrow> pyval \<Rightarrow> exn option \<times> node" where
  "object_setattr n name v =
     (if name \<in> set properties then (Some AttributeError, n) else (None, n(name \<mapsto> v)))"

text \<open>\<^verbatim>\<open>XMLSchemaValidator.__setattr__\<close>\<close>

definition setattr :: "node \<Rightarrow> string \<Rightarrow> pyval \<Rightarrow> exn option \<times> node" where
  "setattr n name v =
     (if name = ''_valid'' then
        (case check_value v [PyNone, PyBool True, PyBool False] of
           Some e \<Rightarrow> (Some e, n)
         | None \<Rightarrow> object_setattr n name v)
      else object_setattr n name v)"

text \<open>\<^verbatim>\<open>XMLSchemaValidator.__init__\<close>, on the empty instance dictionary.\<close>

definition init :: "exn option \<times> node" where
  "init =
     (case setattr Map.empty ''_check_token'' PyNone of
        (Some e, n) \<Rightarrow> (Some e, n)
      | (None, n) \<Rightarrow> setattr n ''_valid'' PyNone)"

text \<open>
  The property \<^verbatim>\<open>check_token\<close> is abstract: a node kind supplies it, and its value
  follows the check pass that is under way. The methods below take what the property
  returns at the moment of the call. In the base class it raises.
\<close>

definition check_token :: "exn + pyval" where
  "check_token = Inl NotImplementedError"

definition check :: "exn + pyval \<Rightarrow> node \<Rightarrow> exn option \<times> node" where
  "check tok n =
     (case tok of
        Inl e \<Rightarrow> (Some e, n)
      | Inr t \<Rightarrow>
          (case setattr n ''_check_token'' t of
             (Some e, n1) \<Rightarrow> (Some e, n1)
           | (None, n1) \<Rightarrow> setattr n1 ''_valid'' (PyBool True)))"

definition checked :: "exn + pyval \<Rightarrow> node \<Rightarrow> exn + bool" where
  "checked tok n =
     (case getattr n ''_check_token'' of
        Inl e \<Rightarrow> Inl e
      | Inr c \<Rightarrow> (case tok of Inl e \<Rightarrow> Inl e | Inr t \<Rightarrow> Inr (py_eq c t)))"

definition valid :: "exn + pyval \<Rightarrow> node \<Rightarrow> exn + pyval" where
  "valid tok n =
     (case checked tok n of
        Inl e \<Rightarrow> Inl e
      | Inr c \<Rightarrow> (if c then getattr n ''_valid'' else Inr PyNone))"

definition validity :: "exn + pyval \<Rightarrow> node \<Rightarrow> exn + string" where
  "validity tok n =
     (case checked tok n of
        Inl e \<Rightarrow> Inl e
      | Inr c \<Rightarrow>
          (if c then
             (case getattr n ''_valid'' of
                Inl e \<Rightarrow> Inl e
              | Inr v \<Rightarrow>
                  (if v = PyBool True then Inr ''valid''
                   else (case getattr n ''_valid'' of
                           Inl e \<Rightarrow> Inl e
                         | Inr w \<Rightarrow>
                             (if w = PyBool False then Inr ''invalid''
                              else Inr ''notKnown''))))
           else Inr ''notKnown''))"

definition validation_attempted :: "exn + pyval \<Rightarrow> node \<Rightarrow> exn + string" where
  "validation_attempted tok n =
     (case checked tok n of
        Inl e \<Rightarrow> Inl e
      | Inr c \<Rightarrow> (if c then Inr ''full'' else Inr ''none''))"

text \<open>
  What a caller can do to a node through the class: assign an attribute, or call
  \<^verbatim>\<open>check()\<close> while \<^verbatim>\<open>check_token\<close> has some value. A caller that catches the exception
  of one operation goes on with the node as that operation left it.
\<close>

datatype op = SetAttr string pyval | Check "exn + pyval"

fun apply_op :: "node \<Rightarrow> op \<Rightarrow> exn option \<times> node" where
  "apply_op n (SetAttr name v) = setattr n name v"
| "apply_op n (Check tok) = check tok n"

fun run :: "node \<Rightarrow> op list \<Rightarrow> node" where
  "run n [] = n"
| "run n (x # xs) = run (snd (apply_op n x)) xs"


text \<open>The stored validity is one of \<^verbatim>\<open>None\<close>, \<^verbatim>\<open>True\<close> and \<^verbatim>\<open>False\<close>.\<close>

definition valid_attr_ok :: "node \<Rightarrow> bool" where
  "valid_attr_ok n = (n ''_valid'' \<in> {Some PyNone, Some (PyBool True), Some (PyBool False)})"


section \<open>The decode and encode protocol\<close>

text \<open>
  \<^verbatim>\<open>iter_decode\<close> and \<^verbatim>\<open>iter_encode\<close> are abstract: a node kind supplies them. The call
  either raises or returns a generator. Of the arguments, the data, the path, the
  validation mode and \<^verbatim>\<open>use_defaults\<close> are kept; the namespace and converter options are
  handed through untouched by every method of the class and are left out.
\<close>

type_synonym decoder = "pyval \<Rightarrow> pyval \<Rightarrow> string \<Rightarrow> bool \<Rightarrow> exn + gen"

type_synonym encoder = "pyval \<Rightarrow> pyval \<Rightarrow> string \<Rightarrow> exn + gen"

text \<open>The two methods of the base class.\<close>

definition iter_decode :: decoder where
  "iter_decode data path validation use_defaults = Inl NotImplementedError"

definition iter_encode :: encoder where
  "iter_encode data path validation = Inl NotImplementedError"

text \<open>
  The loop of \<^verbatim>\<open>iter_errors\<close> over the chunks of \<^verbatim>\<open>iter_decode\<close>. The method is a
  generator itself, so the call of \<^verbatim>\<open>iter_decode\<close> happens at its first \<^verbatim>\<open>next\<close>, and an
  exception of that call is raised there.
\<close>

fun iter_errors_loop :: "gen \<Rightarrow> gen" where
  "iter_errors_loop Stop = Stop"
| "iter_errors_loop (Throw e) = Throw e"
| "iter_errors_loop (Yield chunk g) =
     (if isinstance_validation_error chunk then Yield chunk (iter_errors_loop g)
      else iter_errors_loop g)"

definition iter_errors :: "decoder \<Rightarrow> pyval \<Rightarrow> pyval \<Rightarrow> bool \<Rightarrow> gen" where
  "iter_errors idec data path use_defaults =
     (case idec data path ''lax'' use_defaults of
        Inl e \<Rightarrow> Throw e
      | Inr g \<Rightarrow> iter_errors_loop g)"

text \<open>\<^verbatim>\<open>for error in self.iter_errors(data, use_defaults=use_defaults): raise error\<close>;
  a method that falls off its end returns \<^verbatim>\<open>None\<close>.\<close>

definition validate :: "decoder \<Rightarrow> pyval \<Rightarrow> bool \<Rightarrow> exn + pyval" where
  "validate idec data use_defaults =
     (case iter_errors idec data PyNone use_defaults of
        Stop \<Rightarrow> Inr PyNone
      | Throw e \<Rightarrow> Inl e
      | Yield error g \<Rightarrow> Inl (raise_py error))"

definition is_valid :: "decoder \<Rightarrow> pyval \<Rightarrow> bool \<Rightarrow> exn + bool" where
  "is_valid idec data use_defaults =
     (case py_next (iter_errors idec data PyNone use_defaults) PyNone of
        Inl e \<Rightarrow> Inl e
      | Inr error \<Rightarrow> Inr (error = PyNone))"

text \<open>\<^verbatim>\<open>kwargs.pop('validation', 'strict')\<close>\<close>

definition pop_validation :: "string option \<Rightarrow> string" where
  "pop_validation kw = (case kw of None \<Rightarrow> ''strict'' | Some v \<Rightarrow> v)"

text \<open>The loop of \<^verbatim>\<open>decode\<close>, and the same loop of \<^verbatim>\<open>encode\<close>: its body ends in
  \<^verbatim>\<open>return chunk\<close>, so it runs at most once.\<close>

fun decode_loop :: "string \<Rightarrow> gen \<Rightarrow> exn + pyval" where
  "decode_loop validation Stop = Inr PyNone"
| "decode_loop validation (Throw e) = Inl e"
| "decode_loop validation (Yield chunk g) =
     (if isinstance_validation_error chunk \<and> validation = ''strict''
      then Inl (raise_py chunk) else Inr chunk)"

definition decode :: "decoder \<Rightarrow> pyval \<Rightarrow> string option \<Rightarrow> pyval \<Rightarrow> bool \<Rightarrow> exn + pyval" where
  "decode idec data kw path use_defaults =
     (let validation = pop_validation kw in
      case idec data path validation use_defaults of
        Inl e \<Rightarrow> Inl e
      | Inr g \<Rightarrow> decode_loop validation g)"

fun encode_loop :: "string \<Rightarrow> gen \<Rightarrow> exn + pyval" where
  "encode_loop validation Stop = Inr PyNone"
| "encode_loop validation (Throw e) = Inl e"
| "encode_loop validation (Yield chunk g) =
     (if isinstance_validation_error chunk \<and> validation = ''strict''
      then Inl (raise_py chunk) else Inr chunk)"

definition encode :: "encoder \<Rightarrow> pyval \<Rightarrow> string option \<Rightarrow> pyval \<Rightarrow> exn + pyval" where
  "encode ienc data kw path =
     (let validation = pop_validation kw in
      case ienc data path validation of
        Inl e \<Rightarrow> Inl e
      | Inr g \<Rightarrow> encode_loop validation g)"






text \<open>Some node kinds: what their \<^verbatim>\<open>iter_decode\<close> and \<^verbatim>\<open>iter_encode\<close> yield.\<close>

definition error_then_value :: decoder where
  "error_then_value data path validation use_defaults =
     Inr (Yield (PyValidationError 0) (Yield (PyStr ''decoded'') Stop))"

definition error_then_failure :: decoder where
  "error_then_failure data path validation use_defaults =
     Inr (Yield (PyValidationError 0) (Throw TypeError))"

definition two_errors_then_value :: decoder where
  "two_errors_then_value data path validation use_defaults =
     Inr (Yield (PyValidationError 0) (Yield (PyValidationError 1)
            (Yield (PyStr ''decoded'') Stop)))"

definition yields_nothing :: decoder where
  "yields_nothing data path validation use_defaults = Inr Stop"

definition encodes_nothing :: encoder where
  "encodes_nothing data path validation = Inr Stop"


section \<open>Properties of the validity tracker\<close>

lemma py_eq_refl: "py_eq x x"
  by (cases x) simp_all

lemma setattr_check_token: "setattr n ''_check_token'' t = (None, n(''_check_token'' \<mapsto> t))"
  by (simp add: setattr_def object_setattr_def properties_def)

lemma setattr_valid:
  "setattr n ''_valid'' v =
     (if v \<in> {PyNone, PyBool True, PyBool False} then (None, n(''_valid'' \<mapsto> v))
      else (Some ValueRejected, n))"
  by (simp add: setattr_def object_setattr_def properties_def check_value_def)

lemma check_returns:
  "check (Inr t) n = (None, n(''_check_token'' \<mapsto> t, ''_valid'' \<mapsto> PyBool True))"
  by (simp add: check_def setattr_check_token setattr_valid)

lemma init_node: "init = (None, [''_check_token'' \<mapsto> PyNone, ''_valid'' \<mapsto> PyNone])"
  by (simp add: init_def setattr_check_token setattr_valid)

text \<open>
  C3. While \<^verbatim>\<open>check_token\<close> returns the value \<open>t\<close>, \<^verbatim>\<open>check()\<close> returns normally,
  having stored \<open>t\<close> as the token of the node and \<^verbatim>\<open>True\<close> as its validity; straight
  after it \<^verbatim>\<open>checked\<close> is \<^verbatim>\<open>True\<close> and \<^verbatim>\<open>validity\<close> is one of "valid" and "invalid".
\<close>

theorem check_marks_checked:
  "check (Inr t) n = (None, n(''_check_token'' \<mapsto> t, ''_valid'' \<mapsto> PyBool True))
   \<and> checked (Inr t) (snd (check (Inr t) n)) = Inr True
   \<and> validity (Inr t) (snd (check (Inr t) n)) \<in> {Inr ''valid'', Inr ''invalid''}"
  by (simp add: check_returns checked_def validity_def getattr_def py_eq_refl)

text \<open>
  C4. Freshness: \<^verbatim>\<open>check()\<close> ran while the token was \<open>t\<close>, and the token is now a
  \<open>t'\<close> that Python's \<^verbatim>\<open>==\<close> tells from \<open>t\<close>. Whatever the stored validity \<open>w\<close>
  is by then, \<^verbatim>\<open>checked\<close> is \<^verbatim>\<open>False\<close>, \<^verbatim>\<open>validity\<close> is "notKnown" and
  \<^verbatim>\<open>validation_attempted\<close> is "none".
\<close>

theorem stale_token_not_checked:
  assumes "\<not> py_eq t t'"
  shows "checked (Inr t') ((snd (check (Inr t) n))(''_valid'' := w)) = Inr False
   \<and> validity (Inr t') ((snd (check (Inr t) n))(''_valid'' := w)) = Inr ''notKnown''
   \<and> validation_attempted (Inr t') ((snd (check (Inr t) n))(''_valid'' := w)) = Inr ''none''"
  using assms
  by (simp add: check_returns checked_def validity_def validation_attempted_def getattr_def)

theorem stale_token_not_checked_witness:
  "\<not> py_eq (PyInt 1) (PyInt 2)
   \<and> checked (Inr (PyInt 2)) ((snd (check (Inr (PyInt 1)) (snd init)))(''_valid'' \<mapsto> PyBool False)) = Inr False
   \<and> validity (Inr (PyInt 2)) ((snd (check (Inr (PyInt 1)) (snd init)))(''_valid'' \<mapsto> PyBool False)) = Inr ''notKnown''
   \<and> validation_attempted (Inr (PyInt 2)) ((snd (check (Inr (PyInt 1)) (snd init)))(''_valid'' \<mapsto> PyBool False)) = Inr ''none''"
  using stale_token_not_checked [of "PyInt 1" "PyInt 2" "snd init" "Some (PyBool False)"]
  by simp

text \<open>
  C5 as it is written fails for a node kind whose \<^verbatim>\<open>check_token\<close> returns \<^verbatim>\<open>None\<close>:
  the constructor stores \<^verbatim>\<open>None\<close> as the token, the two compare equal, and
  \<^verbatim>\<open>validation_attempted\<close> of the node that was never checked is "full".
\<close>

theorem fresh_node_none_token_counterexample:
  "fst init = None \<and> validation_attempted (Inr PyNone) (snd init) = Inr ''full''
   \<and> validation_attempted (Inr PyNone) (snd init) \<noteq> Inr ''none''"
  by (simp add: init_node validation_attempted_def checked_def getattr_def)

text \<open>
  C5, amended. On a node as the constructor leaves it, \<^verbatim>\<open>validity\<close> is "notKnown"
  whatever value \<^verbatim>\<open>check_token\<close> returns, and \<^verbatim>\<open>validation_attempted\<close> is "none" for
  every value of \<^verbatim>\<open>check_token\<close> other than \<^verbatim>\<open>None\<close>.
\<close>

theorem fresh_node_not_known:
  "fst init = None
   \<and> validity (Inr t) (snd init) = Inr ''notKnown''
   \<and> (t \<noteq> PyNone \<longrightarrow> validation_attempted (Inr t) (snd init) = Inr ''none'')"
  by (cases t) (simp_all add: init_node validity_def validation_attempted_def checked_def getattr_def)

theorem fresh_node_not_known_witness:
  "PyInt 1 \<noteq> PyNone \<and> validity (Inr (PyInt 1)) (snd init) = Inr ''notKnown''
   \<and> validation_attempted (Inr (PyInt 1)) (snd init) = Inr ''none''"
  using fresh_node_not_known [of "PyInt 1"] by simp

lemma setattr_keeps_ok:
  assumes ok: "valid_attr_ok n"
  shows "valid_attr_ok (snd (setattr n name v))"
proof (cases "name = ''_valid''")
  case True
  then show ?thesis using ok by (simp add: setattr_valid valid_attr_ok_def)
next
  case False
  then show ?thesis using ok
    by (simp add: setattr_def object_setattr_def valid_attr_ok_def)
qed

lemma check_keeps_ok: "valid_attr_ok n \<Longrightarrow> valid_attr_ok (snd (check tok n))"
  by (cases tok) (simp_all add: check_def valid_attr_ok_def setattr_check_token setattr_valid)

lemma apply_op_keeps_ok: "valid_attr_ok n \<Longrightarrow> valid_attr_ok (snd (apply_op n x))"
  by (cases x) (simp_all add: setattr_keeps_ok check_keeps_ok)

lemma run_keeps_ok: "valid_attr_ok n \<Longrightarrow> valid_attr_ok (run n xs)"
  by (induction xs arbitrary: n) (simp_all add: apply_op_keeps_ok)

lemma init_ok: "valid_attr_ok (snd init)"
  by (simp add: init_node valid_attr_ok_def)

text \<open>
  C8. After the constructor and any sequence of attribute assignments and \<^verbatim>\<open>check()\<close>
  calls, \<^verbatim>\<open>_valid\<close> holds \<^verbatim>\<open>None\<close>, \<^verbatim>\<open>True\<close> or \<^verbatim>\<open>False\<close>; the assignment of any
  other value to \<^verbatim>\<open>_valid\<close> raises and leaves the node as it was.
\<close>

theorem valid_attr_invariant:
  "valid_attr_ok (run (snd init) xs)
   \<and> (v \<notin> {PyNone, PyBool True, PyBool False} \<longrightarrow> setattr n ''_valid'' v = (Some ValueRejected, n))"
  by (simp add: run_keeps_ok init_ok setattr_valid)

theorem valid_attr_invariant_witness:
  "PyInt 5 \<notin> {PyNone, PyBool True, PyBool False}
   \<and> valid_attr_ok (run (snd init) [SetAttr ''_valid'' (PyInt 5), Check (Inr (PyInt 1)), SetAttr ''_valid'' (PyBool False)])
   \<and> setattr (snd init) ''_valid'' (PyInt 5) = (Some ValueRejected, snd init)"
proof -
  have h: "PyInt 5 \<notin> {PyNone, PyBool True, PyBool False}" by simp
  show ?thesis
    using h valid_attr_invariant [of "[SetAttr ''_valid'' (PyInt 5), Check (Inr (PyInt 1)), SetAttr ''_valid'' (PyBool False)]" "PyInt 5" "snd init"]
    by blast
qed


section \<open>Properties of the decode and encode protocol\<close>



lemma iter_errors_loop_first:
  "iter_errors_loop g = Yield x r \<Longrightarrow> isinstance_validation_error x"
  by (induction g) (simp_all split: if_splits)

lemma isinstance_not_None: "isinstance_validation_error x \<Longrightarrow> x \<noteq> PyNone"
  by (cases x) simp_all

lemma iter_errors_first:
  "iter_errors idec d p u = Yield x r \<Longrightarrow> isinstance_validation_error x"
  by (auto simp: iter_errors_def split: sum.splits dest: iter_errors_loop_first)

text \<open>
  C1 fails on the code. The node kind \<open>error_then_value\<close> yields a validation error
  and then the decoded value. With \<^verbatim>\<open>validation='lax'\<close> (and with \<^verbatim>\<open>'skip'\<close>) the loop
  of \<^verbatim>\<open>decode\<close> reaches \<^verbatim>\<open>return chunk\<close> at the first chunk: the result is the error
  object, not the value behind it.
\<close>

theorem decode_lax_returns_error:
  "decode error_then_value (PyStr ''x'') (Some ''lax'') PyNone True = Inr (PyValidationError 0)
   \<and> decode error_then_value (PyStr ''x'') (Some ''skip'') PyNone True = Inr (PyValidationError 0)
   \<and> decode error_then_value (PyStr ''x'') (Some ''lax'') PyNone True \<noteq> Inr (PyStr ''decoded'')"
  by (simp add: decode_def pop_validation_def error_then_value_def)








text \<open>The equivalence at three more node kinds: one without errors, one whose stream
  fails behind its first error, and the base class.\<close>

lemma strict_decode_no_errors:
  "decode yields_nothing (PyStr ''x'') (Some ''strict'') PyNone True = Inr PyNone
   \<and> gen_items (iter_errors yields_nothing (PyStr ''x'') PyNone True) = []"
  by (simp add: decode_def pop_validation_def iter_errors_def yields_nothing_def)

lemma strict_decode_error_then_failure:
  "decode error_then_failure (PyStr ''x'') (Some ''strict'') PyNone True
     = Inl (XMLSchemaValidationError 0)
   \<and> gen_items (iter_errors error_then_failure (PyStr ''x'') PyNone True) = [PyValidationError 0]"
  by (simp add: decode_def pop_validation_def iter_errors_def error_then_failure_def)

lemma strict_decode_base_class:
  "decode iter_decode (PyStr ''x'') (Some ''strict'') PyNone True = Inl NotImplementedError
   \<and> gen_items (iter_errors iter_decode (PyStr ''x'') PyNone True) = []"
  by (simp add: decode_def pop_validation_def iter_errors_def iter_decode_def)

text \<open>
  C6. \<^verbatim>\<open>is_valid\<close> answers from the first \<^verbatim>\<open>next\<close> of the error stream alone: \<^verbatim>\<open>True\<close>
  when the stream ends there without an item, \<^verbatim>\<open>False\<close> when an item comes, whatever
  the rest of the stream would do; an exception of that first \<^verbatim>\<open>next\<close> is passed on.
  So it returns \<^verbatim>\<open>True\<close> exactly when \<^verbatim>\<open>iter_errors\<close> yields no item.
\<close>

theorem is_valid_first_error:
  "is_valid idec d u =
     (case iter_errors idec d PyNone u of
        Stop \<Rightarrow> Inr True
      | Throw e \<Rightarrow> Inl e
      | Yield x rest \<Rightarrow> Inr False)
   \<and> ((is_valid idec d u = Inr True) = (iter_errors idec d PyNone u = Stop))"
proof (cases "iter_errors idec d PyNone u")
  case Stop
  then show ?thesis by (simp add: is_valid_def)
next
  case (Throw e)
  then show ?thesis by (simp add: is_valid_def)
next
  case (Yield x rest)
  then have "x \<noteq> PyNone"
    using iter_errors_first isinstance_not_None by blast
  with Yield show ?thesis by (simp add: is_valid_def)
qed

text \<open>The stream of \<open>error_then_failure\<close> raises at its second \<^verbatim>\<open>next\<close>; \<^verbatim>\<open>is_valid\<close>
  does not get there.\<close>

lemma is_valid_stops_at_first_error:
  "is_valid error_then_failure (PyStr ''x'') True = Inr False"
  by (simp add: is_valid_def iter_errors_def error_then_failure_def)


text \<open>The two errors of \<open>two_errors_then_value\<close> come out in their order, and
  \<^verbatim>\<open>validate\<close> raises the first.\<close>

lemma iter_errors_two_errors:
  "gen_items (iter_errors two_errors_then_value (PyStr ''x'') PyNone True)
     = [PyValidationError 0, PyValidationError 1]
   \<and> validate two_errors_then_value (PyStr ''x'') True = Inl (XMLSchemaValidationError 0)"
  by (simp add: iter_errors_def validate_def two_errors_then_value_def)

text \<open>
  C9. With the \<^verbatim>\<open>iter_decode\<close> of the base class, \<^verbatim>\<open>decode\<close> raises
  \<^verbatim>\<open>NotImplementedError\<close> in every validation mode and so does \<^verbatim>\<open>validate\<close>; likewise
  \<^verbatim>\<open>encode\<close> with the \<^verbatim>\<open>iter_encode\<close> of the base class. The exception is no validation
  error.
\<close>

theorem base_class_not_implemented:
  "decode iter_decode d kw p u = Inl NotImplementedError
   \<and> validate iter_decode d u = Inl NotImplementedError
   \<and> encode iter_encode d kw p = Inl NotImplementedError
   \<and> NotImplementedError \<noteq> XMLSchemaValidationError i"
  by (simp add: decode_def encode_def validate_def iter_errors_def iter_decode_def iter_encode_def)

text \<open>
  C10. When \<^verbatim>\<open>iter_decode\<close> yields nothing, \<^verbatim>\<open>decode\<close> returns \<^verbatim>\<open>None\<close> without
  raising, in every validation mode, \<^verbatim>\<open>'strict'\<close> (also by default) among them; and so
  does \<^verbatim>\<open>encode\<close> when \<^verbatim>\<open>iter_encode\<close> yields nothing.
\<close>

theorem empty_stream_returns_None:
  "(idec d p (pop_validation kw) u = Inr Stop \<longrightarrow> decode idec d kw p u = Inr PyNone)
   \<and> (ienc d p (pop_validation kw) = Inr Stop \<longrightarrow> encode ienc d kw p = Inr PyNone)"
  by (simp add: decode_def encode_def)

theorem empty_stream_returns_None_witness:
  "yields_nothing (PyStr ''x'') PyNone (pop_validation None) True = Inr Stop
   \<and> decode yields_nothing (PyStr ''x'') None PyNone True = Inr PyNone
   \<and> encodes_nothing (PyStr ''x'') PyNone (pop_validation None) = Inr Stop
   \<and> encode encodes_nothing (PyStr ''x'') None PyNone = Inr PyNone"
  using empty_stream_returns_None [of yields_nothing "PyStr ''x''" PyNone None True encodes_nothing]
  by (simp add: yields_nothing_def encodes_nothing_def)

end
